theory Spec2Isabelle
  imports Complex_Main
begin

section \<open>Inventory management backend: data model\<close>

text \<open>
  The backend is a three-layer application: endpoints (\<open>app/api/endpoints\<close>) call
  repositories (\<open>app/repositories\<close>) which read and write two tables through an ORM
  session (\<open>app/models\<close>). The session is modelled by explicit state passing: every
  operation takes the database and returns its result together with the database it
  leaves behind. An exception of the source is a value \<open>Inl e\<close> of the result.

  The columns \<open>created_at\<close> and \<open>updated_at\<close> of \<open>app/models/base.py\<close> are filled by
  the ORM from the wall clock and are not part of the model. Python integers are
  \<open>int\<close>; the \<open>Float\<close> column \<open>price\<close> is idealised as a rational number, and no
  statement below depends on its rounding.
\<close>

datatype error =
    HTTPException int string   \<comment> \<open>\<open>status_code\<close>, \<open>detail\<close>\<close>
  | TypeError
  | IntegrityError
  | ArgumentError

text \<open>
  A column declared without \<open>nullable=False\<close> may hold \<open>None\<close>: its field is an
  \<open>option\<close>.
\<close>

record user =
  u_id :: int
  email :: string
  username :: string
  hashed_password :: string
  full_name :: "string option"
  is_active :: "bool option"
  is_superuser :: "bool option"

record product =
  p_id :: int
  name :: string
  description :: "string option"
  sku :: string
  price :: rat
  quantity :: int
  image_url :: "string option"
  category :: "string option"
  min_stock :: "int option"
  user_id :: int

text \<open>A table is the list of its rows, in the order in which a query without
  \<open>ORDER BY\<close> yields them.\<close>

record db =
  users :: "user list"
  products :: "product list"

text \<open>Python's truth value of a nullable Boolean attribute: \<open>None\<close> counts as false.\<close>

definition truthy :: "bool option \<Rightarrow> bool" where
  "truthy b = (b = Some True)"

subsection \<open>Attribute dictionaries\<close>

text \<open>
  \<open>BaseRepository\<close> reaches the attributes of an entity by name (\<open>hasattr\<close>,
  \<open>setattr\<close>, \<open>getattr\<close>). For that, an entity is seen as the dictionary of its column
  attributes, with values of the dynamic type \<open>val\<close>. Flushing an object writes the
  dictionary back to a row; it fails when a column that is \<open>nullable=False\<close> holds
  \<open>None\<close> (or a value has the wrong type, which a validated payload excludes).
\<close>

datatype val = NoneV | IntV int | StrV string | BoolV bool | FloatV rat

type_synonym attrs = "string \<rightharpoonup> val"

definition opt_val :: "('a \<Rightarrow> val) \<Rightarrow> 'a option \<Rightarrow> val" where
  "opt_val f x = (case x of None \<Rightarrow> NoneV | Some a \<Rightarrow> f a)"

fun int_of :: "val option \<Rightarrow> int option" where
  "int_of (Some (IntV i)) = Some i"
| "int_of _ = None"

fun str_of :: "val option \<Rightarrow> string option" where
  "str_of (Some (StrV s)) = Some s"
| "str_of _ = None"

fun float_of :: "val option \<Rightarrow> rat option" where
  "float_of (Some (FloatV r)) = Some r"
| "float_of _ = None"

text \<open>Nullable columns: the outer \<open>option\<close> is the failure, the inner one the \<open>None\<close>
  of Python.\<close>

fun opt_int_of :: "val option \<Rightarrow> int option option" where
  "opt_int_of (Some NoneV) = Some None"
| "opt_int_of (Some (IntV i)) = Some (Some i)"
| "opt_int_of _ = None"

fun opt_str_of :: "val option \<Rightarrow> string option option" where
  "opt_str_of (Some NoneV) = Some None"
| "opt_str_of (Some (StrV s)) = Some (Some s)"
| "opt_str_of _ = None"

fun opt_bool_of :: "val option \<Rightarrow> bool option option" where
  "opt_bool_of (Some NoneV) = Some None"
| "opt_bool_of (Some (BoolV b)) = Some (Some b)"
| "opt_bool_of _ = None"

definition product_attrs :: "product \<Rightarrow> attrs" where
  "product_attrs p =
     [''id'' \<mapsto> IntV (p_id p),
      ''name'' \<mapsto> StrV (name p),
      ''description'' \<mapsto> opt_val StrV (description p),
      ''sku'' \<mapsto> StrV (sku p),
      ''price'' \<mapsto> FloatV (price p),
      ''quantity'' \<mapsto> IntV (quantity p),
      ''image_url'' \<mapsto> opt_val StrV (image_url p),
      ''category'' \<mapsto> opt_val StrV (category p),
      ''min_stock'' \<mapsto> opt_val IntV (min_stock p),
      ''user_id'' \<mapsto> IntV (user_id p)]"

definition product_row :: "attrs \<Rightarrow> product option" where
  "product_row a =
     (case (int_of (a ''id''), str_of (a ''name''), opt_str_of (a ''description''),
            str_of (a ''sku''), float_of (a ''price''), int_of (a ''quantity''),
            opt_str_of (a ''image_url''), opt_str_of (a ''category''),
            opt_int_of (a ''min_stock''), int_of (a ''user_id'')) of
        (Some i, Some n, Some d, Some s, Some pr, Some q, Some im, Some c, Some m, Some u) \<Rightarrow>
          Some \<lparr>p_id = i, name = n, description = d, sku = s, price = pr, quantity = q,
                image_url = im, category = c, min_stock = m, user_id = u\<rparr>
      | _ \<Rightarrow> None)"

definition user_attrs :: "user \<Rightarrow> attrs" where
  "user_attrs u =
     [''id'' \<mapsto> IntV (u_id u),
      ''email'' \<mapsto> StrV (email u),
      ''username'' \<mapsto> StrV (username u),
      ''hashed_password'' \<mapsto> StrV (hashed_password u),
      ''full_name'' \<mapsto> opt_val StrV (full_name u),
      ''is_active'' \<mapsto> opt_val BoolV (is_active u),
      ''is_superuser'' \<mapsto> opt_val BoolV (is_superuser u)]"

definition user_row :: "attrs \<Rightarrow> user option" where
  "user_row a =
     (case (int_of (a ''id''), str_of (a ''email''), str_of (a ''username''),
            str_of (a ''hashed_password''), opt_str_of (a ''full_name''),
            opt_bool_of (a ''is_active''), opt_bool_of (a ''is_superuser'')) of
        (Some i, Some e, Some n, Some h, Some f, Some ac, Some su) \<Rightarrow>
          Some \<lparr>u_id = i, email = e, username = n, hashed_password = h, full_name = f,
                is_active = ac, is_superuser = su\<rparr>
      | _ \<Rightarrow> None)"

text \<open>What a repository knows of its model class (\<open>self.model\<close>): the primary key
  of a row, its attribute dictionary, and the way back.\<close>

record 'r model =
  pk :: "'r \<Rightarrow> int"
  attrs_of :: "'r \<Rightarrow> attrs"
  row_of :: "attrs \<Rightarrow> 'r option"

definition Product :: "product model" where
  "Product = \<lparr>pk = p_id, attrs_of = product_attrs, row_of = product_row\<rparr>"

definition User :: "user model" where
  "User = \<lparr>pk = u_id, attrs_of = user_attrs, row_of = user_row\<rparr>"

section \<open>Generic repository (\<open>app/repositories/base.py\<close>)\<close>

subsection \<open>The session\<close>

text \<open>
  \<open>insert_row\<close> and \<open>commit_row\<close> are \<open>db.add(obj); db.commit(); db.refresh(obj)\<close>
  for a new object and for one that is already persistent. The store assigns the
  primary key of a new row; \<open>store_row\<close> rewrites the row that has the primary key
  the object was loaded with. The unique constraints of the store (\<open>email\<close>,
  \<open>username\<close>, \<open>sku\<close>) are not part of the model: the endpoints look for a duplicate
  themselves before they call a repository.
\<close>

definition next_id :: "'r model \<Rightarrow> 'r list \<Rightarrow> int" where
  "next_id M rows = fold max (map (pk M) rows) 0 + 1"

definition insert_row :: "'r model \<Rightarrow> 'r list \<Rightarrow> attrs \<Rightarrow> (error + 'r) \<times> 'r list" where
  "insert_row M rows obj =
     (case row_of M (obj(''id'' \<mapsto> IntV (next_id M rows))) of
        None \<Rightarrow> (Inl IntegrityError, rows)
      | Some r \<Rightarrow> (Inr r, rows @ [r]))"

definition store_row :: "'r model \<Rightarrow> 'r list \<Rightarrow> int \<Rightarrow> 'r \<Rightarrow> 'r list" where
  "store_row M rows key r = map (\<lambda>r'. if pk M r' = key then r else r') rows"

definition commit_row :: "'r model \<Rightarrow> 'r list \<Rightarrow> int \<Rightarrow> attrs \<Rightarrow> (error + 'r) \<times> 'r list" where
  "commit_row M rows key obj =
     (case row_of M obj of
        None \<Rightarrow> (Inl IntegrityError, rows)
      | Some r \<Rightarrow> (Inr r, store_row M rows key r))"

text \<open>\<open>.offset(skip).limit(limit).all()\<close>; the callers pass non-negative numbers.\<close>

definition offset_limit :: "nat \<Rightarrow> nat \<Rightarrow> 'r list \<Rightarrow> 'r list" where
  "offset_limit skip limit rows = take limit (drop skip rows)"

subsection \<open>\<open>BaseRepository\<close>\<close>

text \<open>\<open>get\<close>: \<open>db.query(self.model).filter(self.model.id == id).first()\<close>.\<close>

definition get :: "'r model \<Rightarrow> 'r list \<Rightarrow> int \<Rightarrow> 'r option" where
  "get M rows i = find (\<lambda>r. pk M r = i) rows"

text \<open>
  \<open>get_multi\<close>. \<open>getattr(self.model, order_by, None)\<close> is a parameter: for a name it
  tells whether the model class has no such attribute, has a column of that name (with
  the key the store orders that column by), or has an attribute that is no column (a
  property, a method), which \<open>asc\<close> and \<open>desc\<close> refuse. \<open>order_by\<close> is skipped when it
  is \<open>None\<close> or empty. \<open>ORDER BY\<close> is a stable sort on the key.
\<close>

datatype 'f class_attr = Missing | Column 'f | Other

definition lower_char :: "char \<Rightarrow> char" where
  "lower_char c =
     (case map_of (zip ''ABCDEFGHIJKLMNOPQRSTUVWXYZ'' ''abcdefghijklmnopqrstuvwxyz'') c of
        None \<Rightarrow> c
      | Some l \<Rightarrow> l)"

definition lower :: "string \<Rightarrow> string" where
  "lower s = map lower_char s"

definition asc :: "('r \<Rightarrow> 'k::linorder) \<Rightarrow> 'r list \<Rightarrow> 'r list" where
  "asc f rows = sort_key f rows"

definition desc :: "('r \<Rightarrow> 'k::linorder) \<Rightarrow> 'r list \<Rightarrow> 'r list" where
  "desc f rows = rev (sort_key f (rev rows))"

definition get_multi ::
  "(string \<Rightarrow> ('r \<Rightarrow> 'k::linorder) class_attr) \<Rightarrow> 'r list \<Rightarrow> nat \<Rightarrow> nat \<Rightarrow>
   string option \<Rightarrow> string \<Rightarrow> error + 'r list" where
  "get_multi getattr_model rows skip limit order_by order_direction =
     (case order_by of
        None \<Rightarrow> Inr (offset_limit skip limit rows)
      | Some ob \<Rightarrow>
          if ob = [] then Inr (offset_limit skip limit rows)
          else (case getattr_model ob of
                  Missing \<Rightarrow> Inr (offset_limit skip limit rows)
                | Other \<Rightarrow> Inl ArgumentError
                | Column order_field \<Rightarrow>
                    if lower order_direction = ''desc''
                    then Inr (offset_limit skip limit (desc order_field rows))
                    else Inr (offset_limit skip limit (asc order_field rows))))"

text \<open>\<open>create\<close>: \<open>obj_data = obj_in.model_dump(); obj_data.update(kwargs)\<close>, then the
  model object is built from \<open>obj_data\<close> and inserted. A schema object is given by the
  dictionary of its fields, as a list of items.\<close>

definition create ::
  "'r model \<Rightarrow> 'r list \<Rightarrow> (string \<times> val) list \<Rightarrow> (string \<times> val) list \<Rightarrow>
   (error + 'r) \<times> 'r list" where
  "create M rows obj_in kwargs = insert_row M rows (map_of obj_in ++ map_of kwargs)"

text \<open>
  \<open>update\<close>. \<open>update_data\<close> is \<open>obj_in\<close> itself when that is a dictionary and
  \<open>obj_in.model_dump(exclude_unset=True)\<close> otherwise; an update schema object is
  given by the items of the fields that were set, which is that dump. The loop sets
  every item whose name is an attribute of the object.
\<close>

definition setattr_items :: "attrs \<Rightarrow> (string \<times> val) list \<Rightarrow> attrs" where
  "setattr_items db_obj update_data =
     fold (\<lambda>(field, value) obj. if obj field \<noteq> None then obj(field \<mapsto> value) else obj)
       update_data db_obj"

definition update ::
  "'r model \<Rightarrow> 'r list \<Rightarrow> 'r \<Rightarrow> (string \<times> val) list \<Rightarrow> (error + 'r) \<times> 'r list" where
  "update M rows db_obj update_data =
     commit_row M rows (pk M db_obj) (setattr_items (attrs_of M db_obj) update_data)"

text \<open>\<open>remove\<close>: \<open>obj = db.query(self.model).get(id)\<close>; if it is there,
  \<open>db.delete(obj); db.commit()\<close>.\<close>

definition remove :: "'r model \<Rightarrow> 'r list \<Rightarrow> int \<Rightarrow> 'r option \<times> 'r list" where
  "remove M rows i =
     (case get M rows i of
        None \<Rightarrow> (None, rows)
      | Some obj \<Rightarrow> (Some obj, filter (\<lambda>r. pk M r \<noteq> pk M obj) rows))"

definition count :: "'r list \<Rightarrow> int" where
  "count rows = int (length rows)"

section \<open>Account repository (\<open>app/repositories/user.py\<close>)\<close>

text \<open>The password primitives of \<open>app/core/security.py\<close> wrap a hashing library; they
  are parameters \<open>get_password_hash\<close> and \<open>verify_password\<close>.\<close>

record user_create =
  uc_email :: string
  uc_username :: string
  uc_full_name :: "string option"
  uc_is_active :: bool
  uc_is_superuser :: bool
  uc_password :: string

text \<open>The schema \<open>UserCreate\<close> (\<open>app/schemas/user.py\<close>): a field that the payload
  leaves out takes its default, \<open>is_active = True\<close> and \<open>is_superuser = False\<close>.\<close>

definition UserCreate ::
  "string \<Rightarrow> string \<Rightarrow> string option \<Rightarrow> bool option \<Rightarrow> bool option \<Rightarrow> string \<Rightarrow> user_create" where
  "UserCreate e n f a s p =
     \<lparr>uc_email = e, uc_username = n, uc_full_name = f,
      uc_is_active = (case a of None \<Rightarrow> True | Some b \<Rightarrow> b),
      uc_is_superuser = (case s of None \<Rightarrow> False | Some b \<Rightarrow> b),
      uc_password = p\<rparr>"

definition get_by_email :: "db \<Rightarrow> string \<Rightarrow> user option" where
  "get_by_email d e = find (\<lambda>u. email u = e) (users d)"

definition get_by_username :: "db \<Rightarrow> string \<Rightarrow> user option" where
  "get_by_username d n = find (\<lambda>u. username u = n) (users d)"

definition user_repository_create :: "(string \<Rightarrow> string) \<Rightarrow> db \<Rightarrow> user_create \<Rightarrow> (error + user) \<times> db" where
  "user_repository_create get_password_hash d obj_in =
     (case insert_row User (users d)
             [''email'' \<mapsto> StrV (uc_email obj_in),
              ''username'' \<mapsto> StrV (uc_username obj_in),
              ''hashed_password'' \<mapsto> StrV (get_password_hash (uc_password obj_in)),
              ''full_name'' \<mapsto> opt_val StrV (uc_full_name obj_in),
              ''is_active'' \<mapsto> BoolV (uc_is_active obj_in),
              ''is_superuser'' \<mapsto> BoolV (uc_is_superuser obj_in)] of
        (r, us) \<Rightarrow> (r, d\<lparr>users := us\<rparr>))"

text \<open>\<open>UserRepository.update\<close>: when the dump has a \<open>password\<close> item, it is
  deleted and a \<open>hashed_password\<close> item is set; hashing \<open>None\<close> raises.\<close>

definition user_update_data ::
  "(string \<Rightarrow> string) \<Rightarrow> (string \<times> val) list \<Rightarrow> error + (string \<times> val) list" where
  "user_update_data get_password_hash update_data =
     (case map_of update_data ''password'' of
        None \<Rightarrow> Inr update_data
      | Some (StrV pw) \<Rightarrow>
          Inr (filter (\<lambda>(k, v). k \<noteq> ''password'' \<and> k \<noteq> ''hashed_password'') update_data @
               [(''hashed_password'', StrV (get_password_hash pw))])
      | Some _ \<Rightarrow> Inl TypeError)"

definition user_repository_update ::
  "(string \<Rightarrow> string) \<Rightarrow> db \<Rightarrow> user \<Rightarrow> (string \<times> val) list \<Rightarrow> (error + user) \<times> db" where
  "user_repository_update get_password_hash d db_obj obj_in =
     (case user_update_data get_password_hash obj_in of
        Inl e \<Rightarrow> (Inl e, d)
      | Inr update_data \<Rightarrow>
          (case update User (users d) db_obj update_data of
             (r, us) \<Rightarrow> (r, d\<lparr>users := us\<rparr>)))"

definition authenticate ::
  "(string \<Rightarrow> string \<Rightarrow> bool) \<Rightarrow> db \<Rightarrow> string \<Rightarrow> string \<Rightarrow> user option" where
  "authenticate verify_password d username_in password =
     (case (case get_by_username d username_in of
              None \<Rightarrow> get_by_email d username_in
            | Some user \<Rightarrow> Some user) of
        None \<Rightarrow> None
      | Some user \<Rightarrow>
          if \<not> verify_password password (hashed_password user) then None else Some user)"

text \<open>Deleting an account deletes the items it owns: the relationship
  \<open>User.products\<close> is declared with \<open>cascade="all, delete-orphan"\<close>.\<close>

definition user_repository_remove :: "db \<Rightarrow> int \<Rightarrow> user option \<times> db" where
  "user_repository_remove d i =
     (case remove User (users d) i of
        (None, us) \<Rightarrow> (None, d)
      | (Some obj, us) \<Rightarrow>
          (Some obj,
           d\<lparr>users := us, products := filter (\<lambda>p. user_id p \<noteq> u_id obj) (products d)\<rparr>))"

section \<open>Item model and repository (\<open>app/models/product.py\<close>,
  \<open>app/repositories/product.py\<close>)\<close>


definition total_value :: "product \<Rightarrow> rat" where
  "total_value p = price p * of_int (quantity p)"

record product_create =
  pc_name :: string
  pc_description :: "string option"
  pc_sku :: string
  pc_price :: rat
  pc_quantity :: int
  pc_image_url :: "string option"
  pc_category :: "string option"
  pc_min_stock :: int

definition product_create_dump :: "product_create \<Rightarrow> (string \<times> val) list" where
  "product_create_dump obj_in =
     [(''name'', StrV (pc_name obj_in)),
      (''description'', opt_val StrV (pc_description obj_in)),
      (''sku'', StrV (pc_sku obj_in)),
      (''price'', FloatV (pc_price obj_in)),
      (''quantity'', IntV (pc_quantity obj_in)),
      (''image_url'', opt_val StrV (pc_image_url obj_in)),
      (''category'', opt_val StrV (pc_category obj_in)),
      (''min_stock'', IntV (pc_min_stock obj_in))]"

definition product_repository_create :: "db \<Rightarrow> product_create \<Rightarrow> int \<Rightarrow> (error + product) \<times> db" where
  "product_repository_create d obj_in uid =
     (case create Product (products d) (product_create_dump obj_in) [(''user_id'', IntV uid)] of
        (r, ps) \<Rightarrow> (r, d\<lparr>products := ps\<rparr>))"

definition product_repository_update ::
  "db \<Rightarrow> product \<Rightarrow> (string \<times> val) list \<Rightarrow> (error + product) \<times> db" where
  "product_repository_update d db_obj obj_in =
     (case update Product (products d) db_obj obj_in of
        (r, ps) \<Rightarrow> (r, d\<lparr>products := ps\<rparr>))"

definition product_repository_remove :: "db \<Rightarrow> int \<Rightarrow> product option \<times> db" where
  "product_repository_remove d i =
     (case remove Product (products d) i of (r, ps) \<Rightarrow> (r, d\<lparr>products := ps\<rparr>))"

definition get_by_sku :: "db \<Rightarrow> string \<Rightarrow> product option" where
  "get_by_sku d s = find (\<lambda>p. sku p = s) (products d)"

definition get_by_user :: "db \<Rightarrow> int \<Rightarrow> nat \<Rightarrow> nat \<Rightarrow> product list" where
  "get_by_user d uid skip limit =
     offset_limit skip limit (filter (\<lambda>p. user_id p = uid) (products d))"

text \<open>\<open>search\<close>: the store's \<open>ILIKE\<close> is a parameter (value, then pattern); applied to
  a \<open>NULL\<close> description it is not true.\<close>

definition search_filter :: "(string \<Rightarrow> string \<Rightarrow> bool) \<Rightarrow> string \<Rightarrow> product \<Rightarrow> bool" where
  "search_filter ilike query p =
     (let pat = ''%'' @ query @ ''%'' in
      ilike (name p) pat \<or>
      (case description p of None \<Rightarrow> False | Some t \<Rightarrow> ilike t pat) \<or>
      ilike (sku p) pat)"

definition search ::
  "(string \<Rightarrow> string \<Rightarrow> bool) \<Rightarrow> db \<Rightarrow> string \<Rightarrow> nat \<Rightarrow> nat \<Rightarrow> product list" where
  "search ilike d query skip limit =
     offset_limit skip limit (filter (search_filter ilike query) (products d))"

definition get_by_category :: "db \<Rightarrow> string \<Rightarrow> nat \<Rightarrow> nat \<Rightarrow> product list" where
  "get_by_category d c skip limit =
     offset_limit skip limit (filter (\<lambda>p. category p = Some c) (products d))"

text \<open>The SQL filter \<open>Product.quantity <= Product.min_stock\<close>: a comparison with
  \<open>NULL\<close> is not true, so such a row is left out.\<close>

definition low_stock_filter :: "product \<Rightarrow> bool" where
  "low_stock_filter p = (case min_stock p of None \<Rightarrow> False | Some m \<Rightarrow> quantity p \<le> m)"

definition get_low_stock :: "db \<Rightarrow> nat \<Rightarrow> nat \<Rightarrow> product list" where
  "get_low_stock d skip limit = offset_limit skip limit (filter low_stock_filter (products d))"

definition get_categories :: "db \<Rightarrow> string list" where
  "get_categories d = remdups (List.map_filter category (products d))"

definition update_stock :: "db \<Rightarrow> int \<Rightarrow> int \<Rightarrow> product option \<times> db" where
  "update_stock d product_id quantity_change =
     (case get Product (products d) product_id of
        None \<Rightarrow> (None, d)
      | Some product \<Rightarrow>
          let new_quantity = quantity product + quantity_change;
              new_quantity = (if new_quantity < 0 then 0 else new_quantity);
              product' = product\<lparr>quantity := new_quantity\<rparr>
          in (Some product',
              d\<lparr>products := store_row Product (products d) (p_id product) product'\<rparr>))"

text \<open>\<open>get_total_value\<close>: \<open>if user_id:\<close> is false for \<open>None\<close> and for \<open>0\<close>.\<close>

definition get_total_value :: "db \<Rightarrow> int option \<Rightarrow> rat" where
  "get_total_value d uid =
     sum_list (map total_value
       (case uid of
          None \<Rightarrow> products d
        | Some i \<Rightarrow> if i = 0 then products d else filter (\<lambda>p. user_id p = i) (products d)))"

section \<open>Access control gate (\<open>app/api/deps.py\<close>)\<close>

text \<open>
  \<open>jwt.decode\<close> with the configured key and algorithm is a parameter \<open>jwt_decode\<close>;
  it raises \<open>JWTError\<close> or yields a payload, of which only \<open>payload.get("sub")\<close> is
  read. A request without a bearer token (\<open>None\<close>) is refused by the OAuth2 scheme.
\<close>

datatype jwt_result = JWTError | Payload "string option"

definition credentials_exception :: error where
  "credentials_exception = HTTPException 401 ''Could not validate credentials''"

definition get_current_user :: "('t \<Rightarrow> jwt_result) \<Rightarrow> db \<Rightarrow> 't option \<Rightarrow> error + user" where
  "get_current_user jwt_decode d token =
     (case token of
        None \<Rightarrow> Inl (HTTPException 401 ''Not authenticated'')
      | Some t \<Rightarrow>
          (case jwt_decode t of
             JWTError \<Rightarrow> Inl credentials_exception
           | Payload None \<Rightarrow> Inl credentials_exception
           | Payload (Some sub) \<Rightarrow>
               (case get_by_username d sub of
                  None \<Rightarrow> Inl credentials_exception
                | Some user \<Rightarrow> Inr user)))"

definition get_current_active_user ::
  "('t \<Rightarrow> jwt_result) \<Rightarrow> db \<Rightarrow> 't option \<Rightarrow> error + user" where
  "get_current_active_user jwt_decode d token =
     (case get_current_user jwt_decode d token of
        Inl e \<Rightarrow> Inl e
      | Inr current_user \<Rightarrow>
          if \<not> truthy (is_active current_user)
          then Inl (HTTPException 400 ''Inactive user'')
          else Inr current_user)"

definition get_current_active_superuser ::
  "('t \<Rightarrow> jwt_result) \<Rightarrow> db \<Rightarrow> 't option \<Rightarrow> error + user" where
  "get_current_active_superuser jwt_decode d token =
     (case get_current_active_user jwt_decode d token of
        Inl e \<Rightarrow> Inl e
      | Inr current_user \<Rightarrow>
          if \<not> truthy (is_superuser current_user)
          then Inl (HTTPException 403 ''Not enough permissions'')
          else Inr current_user)"

record pagination =
  pg_page :: int
  pg_size :: int
  pg_skip :: int
  pg_limit :: int
  pg_order_by :: "string option"
  pg_order_direction :: string


section \<open>Endpoints (\<open>app/api/endpoints\<close>)\<close>

text \<open>
  An endpoint is the body of its function: it takes the payload the framework has
  validated and the caller the gate has resolved, and returns the object it returns
  (or the exception it raises) and the database. Turning a returned row into the
  response schema is the framework's and is not modelled. An update schema object is
  the list of the fields that were set; an attribute that was not set reads \<open>None\<close>.
\<close>

definition schema_attr :: "(string \<times> val) list \<Rightarrow> string \<Rightarrow> val" where
  "schema_attr obj k = (case map_of obj k of None \<Rightarrow> NoneV | Some v \<Rightarrow> v)"

text \<open>Python's truth value of an optional string: \<open>None\<close> and \<open>""\<close> are false.\<close>

definition nonempty :: "string option \<Rightarrow> bool" where
  "nonempty s = (case s of None \<Rightarrow> False | Some t \<Rightarrow> t \<noteq> [])"

subsection \<open>\<open>auth.py\<close>\<close>

record 't token =
  access_token :: 't
  token_type :: string

definition login ::
  "(string \<Rightarrow> string \<Rightarrow> bool) \<Rightarrow> (string \<Rightarrow> 't) \<Rightarrow> db \<Rightarrow> string \<Rightarrow> string \<Rightarrow> error + 't token" where
  "login verify_password create_access_token d form_username form_password =
     (case authenticate verify_password d form_username form_password of
        None \<Rightarrow> Inl (HTTPException 401 ''Incorrect username or password'')
      | Some user \<Rightarrow>
          if \<not> truthy (is_active user) then Inl (HTTPException 400 ''Inactive user'')
          else Inr \<lparr>access_token = create_access_token (username user),
                    token_type = ''bearer''\<rparr>)"

definition register :: "(string \<Rightarrow> string) \<Rightarrow> db \<Rightarrow> user_create \<Rightarrow> (error + user) \<times> db" where
  "register get_password_hash d user_in =
     (case get_by_username d (uc_username user_in) of
        Some user \<Rightarrow> (Inl (HTTPException 400 ''Username already registered''), d)
      | None \<Rightarrow>
          (case get_by_email d (uc_email user_in) of
             Some user \<Rightarrow> (Inl (HTTPException 400 ''Email already registered''), d)
           | None \<Rightarrow> user_repository_create get_password_hash d user_in))"

subsection \<open>\<open>users.py\<close>\<close>

definition read_users_me :: "user \<Rightarrow> user" where
  "read_users_me current_user = current_user"

definition update_user_me ::
  "(string \<Rightarrow> string) \<Rightarrow> db \<Rightarrow> (string \<times> val) list \<Rightarrow> user \<Rightarrow> (error + user) \<times> db" where
  "update_user_me get_password_hash d user_in current_user =
     (if (case schema_attr user_in ''email'' of
            StrV e \<Rightarrow> e \<noteq> [] \<and> e \<noteq> email current_user \<and> get_by_email d e \<noteq> None
          | _ \<Rightarrow> False)
      then (Inl (HTTPException 400 ''Email already registered''), d)
      else if (case schema_attr user_in ''username'' of
                 StrV n \<Rightarrow> n \<noteq> [] \<and> n \<noteq> username current_user \<and> get_by_username d n \<noteq> None
               | _ \<Rightarrow> False)
      then (Inl (HTTPException 400 ''Username already registered''), d)
      else user_repository_update get_password_hash d current_user user_in)"

definition read_users ::
  "(string \<Rightarrow> (user \<Rightarrow> 'k::linorder) class_attr) \<Rightarrow> db \<Rightarrow> pagination \<Rightarrow> user \<Rightarrow>
   error + user list" where
  "read_users getattr_User d pagination current_user =
     get_multi getattr_User (users d) (nat (pg_skip pagination)) (nat (pg_limit pagination))
       (pg_order_by pagination) (pg_order_direction pagination)"

definition read_user_by_id :: "db \<Rightarrow> int \<Rightarrow> user \<Rightarrow> error + user" where
  "read_user_by_id d uid current_user =
     (case get User (users d) uid of
        None \<Rightarrow> Inl (HTTPException 404 ''User not found'')
      | Some user \<Rightarrow> Inr user)"

definition delete_user :: "db \<Rightarrow> int \<Rightarrow> user \<Rightarrow> (error + unit) \<times> db" where
  "delete_user d uid current_user =
     (if uid = u_id current_user
      then (Inl (HTTPException 400 ''Cannot delete yourself''), d)
      else (case get User (users d) uid of
              None \<Rightarrow> (Inl (HTTPException 404 ''User not found''), d)
            | Some user \<Rightarrow> (Inr (), snd (user_repository_remove d uid))))"

subsection \<open>\<open>products.py\<close>\<close>

record product_list =
  pl_items :: "product list"
  pl_total :: int
  pl_page :: int
  pl_size :: int
  pl_pages :: int

definition read_products ::
  "(string \<Rightarrow> (product \<Rightarrow> 'k::linorder) class_attr) \<Rightarrow> (string \<Rightarrow> string \<Rightarrow> bool) \<Rightarrow> db \<Rightarrow>
   pagination \<Rightarrow> string option \<Rightarrow> string option \<Rightarrow> bool \<Rightarrow> user \<Rightarrow> error + product_list" where
  "read_products getattr_Product ilike d pagination search_q category_q low_stock current_user =
     (let skip = nat (pg_skip pagination); limit = nat (pg_limit pagination) in
      case (if nonempty search_q then Inr (search ilike d (the search_q) skip limit)
            else if nonempty category_q then Inr (get_by_category d (the category_q) skip limit)
            else if low_stock then Inr (get_low_stock d skip limit)
            else get_multi getattr_Product (products d) skip limit
                   (pg_order_by pagination) (pg_order_direction pagination)) of
        Inl e \<Rightarrow> Inl e
      | Inr ps \<Rightarrow>
          let total = count (products d);
              pages = (total + pg_size pagination - 1) div pg_size pagination
          in Inr \<lparr>pl_items = ps, pl_total = total, pl_page = pg_page pagination,
                  pl_size = pg_size pagination, pl_pages = pages\<rparr>)"

definition create_product :: "db \<Rightarrow> product_create \<Rightarrow> user \<Rightarrow> (error + product) \<times> db" where
  "create_product d product_in current_user =
     (case get_by_sku d (pc_sku product_in) of
        Some existing_product \<Rightarrow>
          (Inl (HTTPException 400 ''Product with this SKU already exists''), d)
      | None \<Rightarrow> product_repository_create d product_in (u_id current_user))"

definition read_categories :: "db \<Rightarrow> user \<Rightarrow> string list" where
  "read_categories d current_user = get_categories d"

definition read_low_stock_products :: "db \<Rightarrow> pagination \<Rightarrow> user \<Rightarrow> product list" where
  "read_low_stock_products d pagination current_user =
     get_low_stock d (nat (pg_skip pagination)) (nat (pg_limit pagination))"

text \<open>\<open>get_inventory_value\<close>: \<open>round(total_value, 2)\<close> on a float is a parameter
  \<open>round2\<close>; \<open>get_low_stock(db)\<close> is called with its defaults.\<close>

record inventory_value =
  iv_total_value :: rat
  iv_total_products :: int
  iv_low_stock_count :: int

definition get_inventory_value :: "(rat \<Rightarrow> rat) \<Rightarrow> db \<Rightarrow> user \<Rightarrow> inventory_value" where
  "get_inventory_value round2 d current_user =
     \<lparr>iv_total_value = round2 (get_total_value d None),
      iv_total_products = count (products d),
      iv_low_stock_count = int (length (get_low_stock d 0 100))\<rparr>"

definition read_product :: "db \<Rightarrow> int \<Rightarrow> user \<Rightarrow> error + product" where
  "read_product d product_id current_user =
     (case get Product (products d) product_id of
        None \<Rightarrow> Inl (HTTPException 404 ''Product not found'')
      | Some product \<Rightarrow> Inr product)"

definition update_product ::
  "db \<Rightarrow> int \<Rightarrow> (string \<times> val) list \<Rightarrow> user \<Rightarrow> (error + product) \<times> db" where
  "update_product d product_id product_in current_user =
     (case get Product (products d) product_id of
        None \<Rightarrow> (Inl (HTTPException 404 ''Product not found''), d)
      | Some product \<Rightarrow>
          if user_id product \<noteq> u_id current_user \<and> \<not> truthy (is_superuser current_user)
          then (Inl (HTTPException 403 ''Not enough permissions''), d)
          else if (case schema_attr product_in ''sku'' of
                     StrV s \<Rightarrow> s \<noteq> [] \<and> s \<noteq> sku product \<and> get_by_sku d s \<noteq> None
                   | _ \<Rightarrow> False)
          then (Inl (HTTPException 400 ''Product with this SKU already exists''), d)
          else product_repository_update d product product_in)"

definition delete_product :: "db \<Rightarrow> int \<Rightarrow> user \<Rightarrow> (error + unit) \<times> db" where
  "delete_product d product_id current_user =
     (case get Product (products d) product_id of
        None \<Rightarrow> (Inl (HTTPException 404 ''Product not found''), d)
      | Some product \<Rightarrow>
          if user_id product \<noteq> u_id current_user \<and> \<not> truthy (is_superuser current_user)
          then (Inl (HTTPException 403 ''Not enough permissions''), d)
          else (Inr (), snd (product_repository_remove d product_id)))"

definition update_product_stock :: "db \<Rightarrow> int \<Rightarrow> int \<Rightarrow> user \<Rightarrow> (error + product) \<times> db" where
  "update_product_stock d product_id quantity_change current_user =
     (case update_stock d product_id quantity_change of
        (None, d') \<Rightarrow> (Inl (HTTPException 404 ''Product not found''), d')
      | (Some product, d') \<Rightarrow> (Inr product, d'))"

section \<open>API surface (\<open>app/api/api_v1.py\<close>)\<close>

text \<open>
  One request: the gate the endpoint declares runs first (\<open>Depends\<close>), then the
  endpoint. The services that are outside the repository are collected in an
  environment.
\<close>

record ('t, 'ku, 'kp) env =
  jwt_decode :: "'t \<Rightarrow> jwt_result"
  get_password_hash :: "string \<Rightarrow> string"
  verify_password :: "string \<Rightarrow> string \<Rightarrow> bool"
  create_access_token :: "string \<Rightarrow> 't"
  ilike :: "string \<Rightarrow> string \<Rightarrow> bool"
  round2 :: "rat \<Rightarrow> rat"
  getattr_User :: "string \<Rightarrow> (user \<Rightarrow> 'ku) class_attr"
  getattr_Product :: "string \<Rightarrow> (product \<Rightarrow> 'kp) class_attr"

datatype 't request =
    Register user_create
  | Login string string
  | ReadUsersMe "'t option"
  | UpdateUserMe "'t option" "(string \<times> val) list"
  | ReadUsers "'t option" pagination
  | ReadUserById "'t option" int
  | DeleteUser "'t option" int
  | ReadProducts "'t option" pagination "string option" "string option" bool
  | CreateProduct "'t option" product_create
  | ReadCategories "'t option"
  | ReadLowStockProducts "'t option" pagination
  | GetInventoryValue "'t option"
  | ReadProduct "'t option" int
  | UpdateProduct "'t option" int "(string \<times> val) list"
  | DeleteProduct "'t option" int
  | UpdateProductStock "'t option" int int

datatype 't response =
    TokenR "'t token"
  | UserR user
  | UsersR "user list"
  | NoContent
  | ProductListR product_list
  | ProductR product
  | ProductsR "product list"
  | CategoriesR "string list"
  | InventoryValueR inventory_value

definition depends ::
  "error + user \<Rightarrow> db \<Rightarrow> (user \<Rightarrow> (error + 'a) \<times> db) \<Rightarrow> (error + 'a) \<times> db" where
  "depends gate d endpoint = (case gate of Inl e \<Rightarrow> (Inl e, d) | Inr u \<Rightarrow> endpoint u)"

definition respond :: "('a \<Rightarrow> 'b) \<Rightarrow> (error + 'a) \<times> db \<Rightarrow> (error + 'b) \<times> db" where
  "respond f r = (case r of (Inl e, d) \<Rightarrow> (Inl e, d) | (Inr a, d) \<Rightarrow> (Inr (f a), d))"

fun api ::
  "('t, 'ku::linorder, 'kp::linorder) env \<Rightarrow> db \<Rightarrow> 't request \<Rightarrow> (error + 't response) \<times> db" where
  "api E d (Register user_in) = respond UserR (register (get_password_hash E) d user_in)"
| "api E d (Login u p) =
     respond TokenR (login (verify_password E) (create_access_token E) d u p, d)"
| "api E d (ReadUsersMe t) =
     respond UserR (depends (get_current_active_user (jwt_decode E) d t) d
       (\<lambda>cu. (Inr (read_users_me cu), d)))"
| "api E d (UpdateUserMe t user_in) =
     respond UserR (depends (get_current_active_user (jwt_decode E) d t) d
       (update_user_me (get_password_hash E) d user_in))"
| "api E d (ReadUsers t pagination) =
     respond UsersR (depends (get_current_active_superuser (jwt_decode E) d t) d
       (\<lambda>cu. (read_users (getattr_User E) d pagination cu, d)))"
| "api E d (ReadUserById t uid) =
     respond UserR (depends (get_current_active_superuser (jwt_decode E) d t) d
       (\<lambda>cu. (read_user_by_id d uid cu, d)))"
| "api E d (DeleteUser t uid) =
     respond (\<lambda>_. NoContent) (depends (get_current_active_superuser (jwt_decode E) d t) d
       (delete_user d uid))"
| "api E d (ReadProducts t pagination search_q category_q low_stock) =
     respond ProductListR (depends (get_current_active_user (jwt_decode E) d t) d
       (\<lambda>cu. (read_products (getattr_Product E) (ilike E) d pagination search_q category_q
                low_stock cu, d)))"
| "api E d (CreateProduct t product_in) =
     respond ProductR (depends (get_current_active_user (jwt_decode E) d t) d
       (create_product d product_in))"
| "api E d (ReadCategories t) =
     respond CategoriesR (depends (get_current_active_user (jwt_decode E) d t) d
       (\<lambda>cu. (Inr (read_categories d cu), d)))"
| "api E d (ReadLowStockProducts t pagination) =
     respond ProductsR (depends (get_current_active_user (jwt_decode E) d t) d
       (\<lambda>cu. (Inr (read_low_stock_products d pagination cu), d)))"
| "api E d (GetInventoryValue t) =
     respond InventoryValueR (depends (get_current_active_user (jwt_decode E) d t) d
       (\<lambda>cu. (Inr (get_inventory_value (round2 E) d cu), d)))"
| "api E d (ReadProduct t product_id) =
     respond ProductR (depends (get_current_active_user (jwt_decode E) d t) d
       (\<lambda>cu. (read_product d product_id cu, d)))"
| "api E d (UpdateProduct t product_id product_in) =
     respond ProductR (depends (get_current_active_user (jwt_decode E) d t) d
       (update_product d product_id product_in))"
| "api E d (DeleteProduct t product_id) =
     respond (\<lambda>_. NoContent) (depends (get_current_active_user (jwt_decode E) d t) d
       (delete_product d product_id))"
| "api E d (UpdateProductStock t product_id quantity_change) =
     respond ProductR (depends (get_current_active_user (jwt_decode E) d t) d
       (update_product_stock d product_id quantity_change))"

section \<open>A small store\<close>

text \<open>Concrete data on which the statements below are evaluated: two ordinary
  accounts, one elevated account, and three items.\<close>

definition alice :: user where
  "alice = \<lparr>u_id = 1, email = ''alice@example.com'', username = ''alice'',
            hashed_password = ''h:alicepw1'', full_name = None,
            is_active = Some True, is_superuser = Some False\<rparr>"

definition bob :: user where
  "bob = \<lparr>u_id = 2, email = ''bob@example.com'', username = ''bob'',
          hashed_password = ''h:bobpw123'', full_name = Some ''Bob'',
          is_active = Some False, is_superuser = Some False\<rparr>"

definition carol :: user where
  "carol = \<lparr>u_id = 3, email = ''carol@example.com'', username = ''carol'',
            hashed_password = ''h:carolpw1'', full_name = None,
            is_active = Some True, is_superuser = Some False\<rparr>"

definition admin :: user where
  "admin = \<lparr>u_id = 4, email = ''admin@example.com'', username = ''admin'',
           hashed_password = ''h:adminpw1'', full_name = None,
           is_active = Some True, is_superuser = Some True\<rparr>"

definition widget :: product where
  "widget = \<lparr>p_id = 1, name = ''Widget'', description = None, sku = ''W-1'', price = 5,
             quantity = 10, image_url = None, category = Some ''tools'',
             min_stock = Some 5, user_id = 1\<rparr>"

definition gadget :: product where
  "gadget = \<lparr>p_id = 2, name = ''Gadget'', description = Some ''a gadget'', sku = ''G-1'',
             price = 7, quantity = 3, image_url = None, category = Some ''tools'',
             min_stock = Some 5, user_id = 1\<rparr>"

definition gizmo :: product where
  "gizmo = \<lparr>p_id = 3, name = ''Gizmo'', description = None, sku = ''Z-1'', price = 2,
            quantity = 0, image_url = None, category = None,
            min_stock = Some 0, user_id = 3\<rparr>"

definition store :: db where
  "store = \<lparr>users = [alice, bob, carol, admin], products = [widget, gadget, gizmo]\<rparr>"

text \<open>A hashing service for the examples: the hash of \<open>pw\<close> is \<open>h:pw\<close>.\<close>

definition example_hash :: "string \<Rightarrow> string" where
  "example_hash pw = ''h:'' @ pw"

definition example_verify :: "string \<Rightarrow> string \<Rightarrow> bool" where
  "example_verify pw h = (h = example_hash pw)"

text \<open>The integer columns of \<open>Product\<close>, as \<open>getattr(Product, name, None)\<close> finds
  them; \<open>is_low_stock\<close> is a property of the class and no column.\<close>

definition example_columns :: "string \<Rightarrow> (product \<Rightarrow> int) class_attr" where
  "example_columns c =
     (if c = ''id'' then Column p_id
      else if c = ''quantity'' then Column quantity
      else if c = ''user_id'' then Column user_id
      else if c = ''is_low_stock'' then Other
      else Missing)"

definition example_user_columns :: "string \<Rightarrow> (user \<Rightarrow> int) class_attr" where
  "example_user_columns c = (if c = ''id'' then Column u_id else Missing)"

text \<open>A case-insensitive substring test stands for \<open>ILIKE\<close> with a pattern \<open>%q%\<close>,
  and a token is the name of its subject, except the token \<open>expired\<close>.\<close>

fun contains :: "string \<Rightarrow> string \<Rightarrow> bool" where
  "contains q [] = (q = [])"
| "contains q (c # cs) = (take (length q) (c # cs) = q \<or> contains q cs)"

definition example_ilike :: "string \<Rightarrow> string \<Rightarrow> bool" where
  "example_ilike v pat = contains (lower (butlast (tl pat))) (lower v)"

definition example_env :: "(string, int, int) env" where
  "example_env =
     \<lparr>jwt_decode = (\<lambda>t. if t = ''expired'' then JWTError else Payload (Some t)),
      get_password_hash = example_hash,
      verify_password = example_verify,
      create_access_token = (\<lambda>sub. sub),
      ilike = example_ilike,
      round2 = (\<lambda>x. x),
      getattr_User = example_user_columns,
      getattr_Product = example_columns\<rparr>"

section \<open>Properties of the session and of \<open>get\<close>\<close>

lemma get_pk: "get M rows i = Some r \<Longrightarrow> pk M r = i"
  by (auto simp: get_def dest: find_Some_iff[THEN iffD1])



section \<open>Stock adjustment\<close>



section \<open>Low stock\<close>



section \<open>Authentication\<close>

lemma find_map_flag:
  assumes "\<And>x. P (g x) = P x"
  shows "find P (map g xs) = map_option g (find P xs)"
  using assms by (induction xs) auto

text \<open>
  C5. \<open>authenticate(identifier, password)\<close> takes the account whose username is the
  identifier; only when there is none, the account whose email is the identifier. It
  returns \<open>None\<close> exactly when neither lookup finds an account or the password does not
  verify against the hash of the account found, and the account otherwise. The active
  flag is not read: setting the active flags of the stored accounts to any values
  changes the result only in the flag of the account returned.
\<close>

theorem authenticate_username_then_email:
  "(\<forall>u. get_by_username d ident = Some u \<longrightarrow>
        username u = ident \<and> u \<in> set (users d) \<and>
        authenticate vp d ident pw = (if vp pw (hashed_password u) then Some u else None)) \<and>
   (get_by_username d ident = None \<longrightarrow>
        (\<forall>u \<in> set (users d). username u \<noteq> ident) \<and>
        (\<forall>u. get_by_email d ident = Some u \<longrightarrow>
           email u = ident \<and> u \<in> set (users d) \<and>
           authenticate vp d ident pw = (if vp pw (hashed_password u) then Some u else None))) \<and>
   (authenticate vp d ident pw = None \<longleftrightarrow>
      (get_by_username d ident = None \<and> get_by_email d ident = None) \<or>
      (\<exists>u. (case get_by_username d ident of None \<Rightarrow> get_by_email d ident | Some a \<Rightarrow> Some a) = Some u \<and>
           \<not> vp pw (hashed_password u))) \<and>
   authenticate vp (d\<lparr>users := map (\<lambda>u. u\<lparr>is_active := f u\<rparr>) (users d)\<rparr>) ident pw =
     map_option (\<lambda>u. u\<lparr>is_active := f u\<rparr>) (authenticate vp d ident pw)"
proof (intro conjI allI impI ballI)
  fix u assume g: "get_by_username d ident = Some u"
  then show "username u = ident" "u \<in> set (users d)"
    by (auto simp: get_by_username_def find_Some_iff)
  show "authenticate vp d ident pw = (if vp pw (hashed_password u) then Some u else None)"
    using g by (simp add: authenticate_def)
next
  fix u assume "get_by_username d ident = None" "u \<in> set (users d)"
  then show "username u \<noteq> ident" by (auto simp: get_by_username_def find_None_iff)
next
  fix u assume n: "get_by_username d ident = None" and g: "get_by_email d ident = Some u"
  from g show "email u = ident" "u \<in> set (users d)"
    by (auto simp: get_by_email_def find_Some_iff)
  show "authenticate vp d ident pw = (if vp pw (hashed_password u) then Some u else None)"
    using n g by (simp add: authenticate_def)
next
  show "(authenticate vp d ident pw = None) =
    (get_by_username d ident = None \<and> get_by_email d ident = None \<or>
     (\<exists>u. (case get_by_username d ident of None \<Rightarrow> get_by_email d ident | Some a \<Rightarrow> Some a) = Some u \<and>
          \<not> vp pw (hashed_password u)))"
    by (auto simp: authenticate_def split: option.splits)
next
  let ?g = "\<lambda>u. u\<lparr>is_active := f u\<rparr>"
  let ?d = "d\<lparr>users := map ?g (users d)\<rparr>"
  have a: "get_by_username ?d ident = map_option ?g (get_by_username d ident)"
    by (simp add: get_by_username_def find_map_flag)
  have b: "get_by_email ?d ident = map_option ?g (get_by_email d ident)"
    by (simp add: get_by_email_def find_map_flag)
  show "authenticate vp ?d ident pw = map_option ?g (authenticate vp d ident pw)"
  proof (cases "get_by_username d ident")
    case None
    then show ?thesis
      by (cases "get_by_email d ident") (simp_all add: authenticate_def a b)
  next
    case (Some u)
    then show ?thesis by (simp add: authenticate_def a b)
  qed
qed

theorem authenticate_username_then_email_witness:
  "authenticate example_verify store ''bob'' ''bobpw123'' = Some bob \<and>
   is_active bob = Some False \<and>
   authenticate example_verify store ''alice@example.com'' ''alicepw1'' = Some alice \<and>
   authenticate example_verify store ''alice'' ''wrong'' = None \<and>
   authenticate example_verify store ''nobody'' ''alicepw1'' = None"
proof -
  have u: "get_by_username store ''bob'' = Some bob"
      "get_by_username store ''alice'' = Some alice"
      "get_by_username store ''alice@example.com'' = None"
      "get_by_username store ''nobody'' = None"
    by (simp_all add: get_by_username_def store_def alice_def bob_def carol_def admin_def)
  have e: "get_by_email store ''alice@example.com'' = Some alice"
      "get_by_email store ''nobody'' = None"
    by (simp_all add: get_by_email_def store_def alice_def bob_def carol_def admin_def)
  have v: "example_verify ''bobpw123'' (hashed_password bob)"
      "example_verify ''alicepw1'' (hashed_password alice)"
      "\<not> example_verify ''wrong'' (hashed_password alice)"
    by (simp_all add: example_verify_def example_hash_def alice_def bob_def)
  have 1: "authenticate example_verify store ''bob'' ''bobpw123'' = Some bob"
    using authenticate_username_then_email[of store "''bob''" example_verify "''bobpw123''"] u v
    by simp
  have 2: "authenticate example_verify store ''alice@example.com'' ''alicepw1'' = Some alice"
    using authenticate_username_then_email
            [of store "''alice@example.com''" example_verify "''alicepw1''"] u e v
    by simp
  have 3: "authenticate example_verify store ''alice'' ''wrong'' = None"
    using authenticate_username_then_email[of store "''alice''" example_verify "''wrong''"] u v
    by simp
  have 4: "authenticate example_verify store ''nobody'' ''alicepw1'' = None"
    using authenticate_username_then_email[of store "''nobody''" example_verify "''alicepw1''"] u e
    by simp
  show ?thesis using 1 2 3 4 by (simp add: bob_def)
qed

section \<open>Registration\<close>

lemma user_repository_create_row:
  "user_repository_create h d ui =
     (Inr \<lparr>u_id = next_id User (users d), email = uc_email ui, username = uc_username ui,
           hashed_password = h (uc_password ui), full_name = uc_full_name ui,
           is_active = Some (uc_is_active ui), is_superuser = Some (uc_is_superuser ui)\<rparr>,
      d\<lparr>users := users d @
           [\<lparr>u_id = next_id User (users d), email = uc_email ui, username = uc_username ui,
             hashed_password = h (uc_password ui), full_name = uc_full_name ui,
             is_active = Some (uc_is_active ui), is_superuser = Some (uc_is_superuser ui)\<rparr>]\<rparr>)"
  by (cases "uc_full_name ui")
     (simp_all add: user_repository_create_def insert_row_def User_def user_row_def opt_val_def)

text \<open>
  C4. A registration whose username and email are not taken persists a new account
  whose active flag and elevated-privilege flag are the values of the payload, \<open>True\<close>
  and \<open>False\<close> when the payload leaves them out. The request carries no token, so a
  payload with the elevated-privilege flag set creates an elevated account for any
  sender.
\<close>

theorem register_persists_payload_flags:
  "get_by_username d n = None \<and> get_by_email d e = None \<longrightarrow>
     (\<exists>u. api E d (Register (UserCreate e n f a s pw)) = (Inr (UserR u), d\<lparr>users := users d @ [u]\<rparr>) \<and>
          is_active u = Some (case a of None \<Rightarrow> True | Some b \<Rightarrow> b) \<and>
          is_superuser u = Some (case s of None \<Rightarrow> False | Some b \<Rightarrow> b) \<and>
          username u = n \<and> email u = e \<and> hashed_password u = get_password_hash E pw \<and>
          (s = Some True \<longrightarrow> truthy (is_superuser u)))"
proof
  assume h: "get_by_username d n = None \<and> get_by_email d e = None"
  let ?ui = "UserCreate e n f a s pw"
  let ?u = "\<lparr>u_id = next_id User (users d), email = uc_email ?ui, username = uc_username ?ui,
           hashed_password = get_password_hash E (uc_password ?ui), full_name = uc_full_name ?ui,
           is_active = Some (uc_is_active ?ui), is_superuser = Some (uc_is_superuser ?ui)\<rparr>"
  have r: "register (get_password_hash E) d ?ui = (Inr ?u, d\<lparr>users := users d @ [?u]\<rparr>)"
    using h by (simp add: register_def user_repository_create_row UserCreate_def)
  have "api E d (Register ?ui) = (Inr (UserR ?u), d\<lparr>users := users d @ [?u]\<rparr>)"
    by (simp add: r respond_def)
  then show "\<exists>u. api E d (Register ?ui) = (Inr (UserR u), d\<lparr>users := users d @ [u]\<rparr>) \<and>
          is_active u = Some (case a of None \<Rightarrow> True | Some b \<Rightarrow> b) \<and>
          is_superuser u = Some (case s of None \<Rightarrow> False | Some b \<Rightarrow> b) \<and>
          username u = n \<and> email u = e \<and> hashed_password u = get_password_hash E pw \<and>
          (s = Some True \<longrightarrow> truthy (is_superuser u))"
    by (intro exI[of _ ?u]) (simp add: UserCreate_def truthy_def)
qed

theorem register_persists_payload_flags_witness:
  "(\<exists>u. api example_env store
           (Register (UserCreate ''eve@example.com'' ''eve'' None None (Some True) ''evepw123''))
         = (Inr (UserR u), store\<lparr>users := users store @ [u]\<rparr>) \<and>
        is_active u = Some True \<and> is_superuser u = Some True \<and> username u = ''eve'')"
proof -
  have h: "get_by_username store ''eve'' = None \<and> get_by_email store ''eve@example.com'' = None"
    by (simp add: get_by_username_def get_by_email_def store_def alice_def bob_def carol_def
          admin_def)
  from register_persists_payload_flags
         [of store "''eve''" "''eve@example.com''" example_env None None "Some True" "''evepw123''"] h
  show ?thesis by auto
qed

section \<open>Deleting an account\<close>

lemma get_filter_self: "get M (filter (\<lambda>r. pk M r \<noteq> i) rows) i = None"
  by (simp add: get_def find_None_iff)

lemma get_filter_other:
  "j \<noteq> i \<Longrightarrow> get M (filter (\<lambda>r. pk M r \<noteq> i) rows) j = get M rows j"
  unfolding get_def by (induction rows) auto

lemma user_repository_remove_found:
  "get User (users d) i = Some u \<Longrightarrow>
   user_repository_remove d i =
     (Some u, d\<lparr>users := filter (\<lambda>r. u_id r \<noteq> i) (users d),
               products := filter (\<lambda>p. user_id p \<noteq> i) (products d)\<rparr>)"
  using get_pk[of User "users d" i u]
  by (simp add: user_repository_remove_def remove_def User_def)

text \<open>
  C9. \<open>DELETE /users/{id}\<close> with the id of the caller is refused with status 400 and
  the store is as before, whatever the privilege of the caller. For a caller who passes
  the elevated gate and any other id: when no account has that id the answer is 404 and
  the store is as before; otherwise the answer is 204, the account (and the items it
  owns) are deleted, and every other account is as before.
\<close>

theorem delete_user_refuses_self:
  "(\<forall>cu. uid = u_id cu \<longrightarrow>
      delete_user d uid cu = (Inl (HTTPException 400 ''Cannot delete yourself''), d)) \<and>
   (\<forall>cu. get_current_active_superuser (jwt_decode E) d t = Inr cu \<longrightarrow>
      truthy (is_superuser cu) \<and>
      api E d (DeleteUser t uid) =
        (if uid = u_id cu then (Inl (HTTPException 400 ''Cannot delete yourself''), d)
         else case get User (users d) uid of
                None \<Rightarrow> (Inl (HTTPException 404 ''User not found''), d)
              | Some u \<Rightarrow>
                  (Inr NoContent,
                   d\<lparr>users := filter (\<lambda>r. u_id r \<noteq> uid) (users d),
                     products := filter (\<lambda>p. user_id p \<noteq> uid) (products d)\<rparr>))) \<and>
   get User (filter (\<lambda>r. u_id r \<noteq> uid) (users d)) uid = None \<and>
   (\<forall>j. j \<noteq> uid \<longrightarrow> get User (filter (\<lambda>r. u_id r \<noteq> uid) (users d)) j = get User (users d) j)"
proof (intro conjI allI impI)
  fix cu :: user assume "uid = u_id cu"
  then show "delete_user d uid cu = (Inl (HTTPException 400 ''Cannot delete yourself''), d)"
    by (simp add: delete_user_def)
next
  fix cu :: user assume g: "get_current_active_superuser (jwt_decode E) d t = Inr cu"
  then show "truthy (is_superuser cu)"
    by (auto simp: get_current_active_superuser_def split: sum.splits if_splits)
  have e: "delete_user d uid cu =
        (if uid = u_id cu then (Inl (HTTPException 400 ''Cannot delete yourself''), d)
         else case get User (users d) uid of
                None \<Rightarrow> (Inl (HTTPException 404 ''User not found''), d)
              | Some u \<Rightarrow>
                  (Inr (),
                   d\<lparr>users := filter (\<lambda>r. u_id r \<noteq> uid) (users d),
                     products := filter (\<lambda>p. user_id p \<noteq> uid) (products d)\<rparr>))"
    by (auto simp: delete_user_def user_repository_remove_found split: option.splits)
  show "api E d (DeleteUser t uid) =
        (if uid = u_id cu then (Inl (HTTPException 400 ''Cannot delete yourself''), d)
         else case get User (users d) uid of
                None \<Rightarrow> (Inl (HTTPException 404 ''User not found''), d)
              | Some u \<Rightarrow>
                  (Inr NoContent,
                   d\<lparr>users := filter (\<lambda>r. u_id r \<noteq> uid) (users d),
                     products := filter (\<lambda>p. user_id p \<noteq> uid) (products d)\<rparr>))"
    by (simp add: g depends_def respond_def e split: option.splits)
next
  show "get User (filter (\<lambda>r. u_id r \<noteq> uid) (users d)) uid = None"
    using get_filter_self[of User uid "users d"] by (simp add: User_def)
next
  fix j assume "j \<noteq> uid"
  then show "get User (filter (\<lambda>r. u_id r \<noteq> uid) (users d)) j = get User (users d) j"
    using get_filter_other[of j uid User "users d"] by (simp add: User_def)
qed

theorem delete_user_refuses_self_witness:
  "get_current_active_superuser (jwt_decode example_env) store (Some ''admin'') = Inr admin \<and>
   api example_env store (DeleteUser (Some ''admin'') 4) =
     (Inl (HTTPException 400 ''Cannot delete yourself''), store) \<and>
   api example_env store (DeleteUser (Some ''admin'') 9) =
     (Inl (HTTPException 404 ''User not found''), store) \<and>
   api example_env store (DeleteUser (Some ''admin'') 3) =
     (Inr NoContent, \<lparr>users = [alice, bob, admin], products = [widget, gadget]\<rparr>)"
proof -
  have g: "get_current_active_superuser (jwt_decode example_env) store (Some ''admin'') = Inr admin"
    by (simp add: get_current_active_superuser_def get_current_active_user_def
          get_current_user_def example_env_def get_by_username_def truthy_def
          store_def alice_def bob_def carol_def admin_def)
  have i: "u_id admin = 4" by (simp add: admin_def)
  have l: "get User (users store) 9 = None" "get User (users store) 3 = Some carol"
    by (simp_all add: get_def User_def store_def alice_def bob_def carol_def admin_def)
  have f: "store\<lparr>users := filter (\<lambda>r. u_id r \<noteq> 3) (users store),
                 products := filter (\<lambda>p. user_id p \<noteq> 3) (products store)\<rparr>
           = \<lparr>users = [alice, bob, admin], products = [widget, gadget]\<rparr>"
    by (simp add: store_def alice_def bob_def carol_def admin_def widget_def gadget_def gizmo_def)
  have 1: "api example_env store (DeleteUser (Some ''admin'') 4) =
     (Inl (HTTPException 400 ''Cannot delete yourself''), store)"
    using delete_user_refuses_self[of 4 store example_env "Some ''admin''"] g i by simp
  have 2: "api example_env store (DeleteUser (Some ''admin'') 9) =
     (Inl (HTTPException 404 ''User not found''), store)"
    using delete_user_refuses_self[of 9 store example_env "Some ''admin''"] g i l by simp
  have 3: "api example_env store (DeleteUser (Some ''admin'') 3) =
     (Inr NoContent, \<lparr>users = [alice, bob, admin], products = [widget, gadget]\<rparr>)"
    using delete_user_refuses_self[of 3 store example_env "Some ''admin''"] g i l f by simp
  show ?thesis using g 1 2 3 by simp
qed

section \<open>Ordering in \<open>get_multi\<close>\<close>

lemma sorted_page: "sorted (map f rs) \<Longrightarrow> sorted (map f (take l (drop s rs)))"
  by (simp add: take_map[symmetric] drop_map[symmetric] sorted_wrt_take sorted_wrt_drop)

lemma sorted_rev_page:
  "sorted (rev (map f rs)) \<Longrightarrow> sorted (rev (map f (take l (drop s rs))))"
  by (simp add: sorted_wrt_rev take_map[symmetric] drop_map[symmetric]
        sorted_wrt_take sorted_wrt_drop)

lemma lower_DESC: "lower ''DESC'' = ''desc''"
  by (simp add: lower_def lower_char_def)

lemma lower_asc: "lower ''asc'' = ''asc''"
  by (simp add: lower_def lower_char_def)

text \<open>
  C6, as stated, fails: the direction \<open>DESC\<close> is a string other than \<open>desc\<close>, and
  with it the items come back in descending order of the column \<open>quantity\<close>.
\<close>

theorem get_multi_upper_case_desc_is_descending:
  "''DESC'' \<noteq> ''desc'' \<and>
   example_columns ''quantity'' = Column quantity \<and>
   get_multi example_columns [gizmo, widget, gadget] 0 100 (Some ''quantity'') ''DESC''
     = Inr [widget, gadget, gizmo] \<and>
   map quantity [widget, gadget, gizmo] = [10, 3, 0] \<and>
   \<not> sorted (map quantity [widget, gadget, gizmo])"
  by (simp add: get_multi_def example_columns_def lower_DESC desc_def offset_limit_def
        widget_def gadget_def gizmo_def)

text \<open>
  C6, amended. When \<open>order_by\<close> is absent, empty, or names no attribute of the model
  class, \<open>get_multi\<close> returns the page of the table in its own order and raises nothing.
  When \<open>order_by\<close> names a column, the page is taken from the rows in ascending order of
  that column whenever the lower-cased \<open>order_direction\<close> differs from \<open>desc\<close>, and in
  descending order when \<open>order_direction\<close> is \<open>desc\<close> in any letter case.
\<close>

theorem get_multi_order_direction:
  "((order_by = None \<or> order_by = Some [] \<or> (\<exists>ob. order_by = Some ob \<and> ga ob = Missing)) \<longrightarrow>
      get_multi ga rows skip limit order_by od = Inr (take limit (drop skip rows))) \<and>
   (\<forall>ob f. order_by = Some ob \<and> ob \<noteq> [] \<and> ga ob = Column f \<longrightarrow>
      (lower od \<noteq> ''desc'' \<longrightarrow>
         get_multi ga rows skip limit order_by od
           = Inr (take limit (drop skip (sort_key f rows))) \<and>
         sorted (map f (take limit (drop skip (sort_key f rows))))) \<and>
      (lower od = ''desc'' \<longrightarrow>
         get_multi ga rows skip limit order_by od
           = Inr (take limit (drop skip (rev (sort_key f (rev rows))))) \<and>
         sorted (rev (map f (take limit (drop skip (rev (sort_key f (rev rows)))))))))"
proof (intro conjI allI impI)
  assume "order_by = None \<or> order_by = Some [] \<or> (\<exists>ob. order_by = Some ob \<and> ga ob = Missing)"
  then show "get_multi ga rows skip limit order_by od = Inr (take limit (drop skip rows))"
    by (auto simp: get_multi_def offset_limit_def)
next
  fix ob f assume c: "order_by = Some ob \<and> ob \<noteq> [] \<and> ga ob = Column f"
  {
    assume "lower od \<noteq> ''desc''"
    with c show "get_multi ga rows skip limit order_by od
           = Inr (take limit (drop skip (sort_key f rows)))"
      by (simp add: get_multi_def offset_limit_def asc_def)
    show "sorted (map f (take limit (drop skip (sort_key f rows))))"
      by (rule sorted_page) (rule sorted_sort_key)
  }
  {
    assume "lower od = ''desc''"
    with c show "get_multi ga rows skip limit order_by od
           = Inr (take limit (drop skip (rev (sort_key f (rev rows)))))"
      by (simp add: get_multi_def offset_limit_def desc_def)
    show "sorted (rev (map f (take limit (drop skip (rev (sort_key f (rev rows)))))))"
      by (rule sorted_rev_page) (simp add: rev_map[symmetric] sorted_sort_key)
  }
qed

theorem get_multi_order_direction_witness:
  "get_multi example_columns [gizmo, widget, gadget] 0 100 (Some ''quantity'') ''asc''
     = Inr [gizmo, gadget, widget] \<and>
   get_multi example_columns [gizmo, widget, gadget] 0 100 (Some ''quantity'') ''DESC''
     = Inr [widget, gadget, gizmo] \<and>
   get_multi example_columns [gizmo, widget, gadget] 1 1 (Some ''colour'') ''desc''
     = Inr [widget]"
proof -
  have c: "example_columns ''quantity'' = Column quantity" "example_columns ''colour'' = Missing"
    by (simp_all add: example_columns_def)
  have s: "sort_key quantity [gizmo, widget, gadget] = [gizmo, gadget, widget]"
      "rev (sort_key quantity (rev [gizmo, widget, gadget])) = [widget, gadget, gizmo]"
    by (simp_all add: widget_def gadget_def gizmo_def)
  have a: "lower ''asc'' \<noteq> ''desc''" by (simp add: lower_asc)
  have 1: "get_multi example_columns [gizmo, widget, gadget] 0 100 (Some ''quantity'') ''asc''
     = Inr [gizmo, gadget, widget]"
    using get_multi_order_direction
            [of "Some ''quantity''" example_columns "[gizmo, widget, gadget]" 0 100 "''asc''"]
          c a s by simp
  have 2: "get_multi example_columns [gizmo, widget, gadget] 0 100 (Some ''quantity'') ''DESC''
     = Inr [widget, gadget, gizmo]"
    using get_multi_order_direction
            [of "Some ''quantity''" example_columns "[gizmo, widget, gadget]" 0 100 "''DESC''"]
          c lower_DESC s by simp
  have 3: "get_multi example_columns [gizmo, widget, gadget] 1 1 (Some ''colour'') ''desc''
     = Inr [widget]"
    using get_multi_order_direction
            [of "Some ''colour''" example_columns "[gizmo, widget, gadget]" 1 1 "''desc''"]
          c by simp
  show ?thesis using 1 2 3 by simp
qed

section \<open>Listing items\<close>










section \<open>Merge-patch update\<close>





















section \<open>Error responses and the store\<close>

lemma db_users_same: "(d::db)\<lparr>users := users d\<rparr> = d"
  by simp

lemma db_products_same: "(d::db)\<lparr>products := products d\<rparr> = d"
  by simp


















lemma gate_carol:
  "get_current_active_user (jwt_decode example_env) store (Some ''carol'') = Inr carol"
  by (simp add: get_current_active_user_def get_current_user_def example_env_def
        get_by_username_def truthy_def store_def alice_def bob_def carol_def admin_def)

lemma get_widget: "get Product (products store) 1 = Some widget"
  by (simp add: get_def Product_def store_def widget_def)

lemma carol_not_owner: "user_id widget \<noteq> u_id carol \<and> \<not> truthy (is_superuser carol)"
  by (simp add: widget_def carol_def truthy_def)

lemma carol_update_refused:
  "api example_env store (UpdateProduct (Some ''carol'') 1 [(''quantity'', IntV 6)])
     = (Inl (HTTPException 403 ''Not enough permissions''), store)"
  using carol_not_owner
  by (simp add: gate_carol depends_def respond_def update_product_def get_widget)


section \<open>Ownership of items\<close>

lemma non_owner_update_delete_forbidden:
  assumes "get Product (products d) i = Some p"
    and "user_id p \<noteq> u_id cu" and "\<not> truthy (is_superuser cu)"
  shows "update_product d i upd cu = (Inl (HTTPException 403 ''Not enough permissions''), d)"
    and "delete_product d i cu = (Inl (HTTPException 403 ''Not enough permissions''), d)"
  using assms by (simp_all add: update_product_def delete_product_def)

lemma update_product_stock_any_caller:
  "update_product_stock d i q cu = update_product_stock d i q cu'"
  by (simp add: update_product_stock_def)

text \<open>
  C1. The account \<open>carol\<close> is active, is not elevated and does not own the item
  \<open>widget\<close>. Her update and her delete of the item are refused with status 403 and the
  store is as before. Her stock adjustment is not refused: the endpoint answers with
  the item and the stored quantity goes from 10 to 6.
\<close>

theorem update_product_stock_not_owner:
  "get_current_active_user (jwt_decode example_env) store (Some ''carol'') = Inr carol \<and>
   get Product (products store) 1 = Some widget \<and>
   user_id widget \<noteq> u_id carol \<and> \<not> truthy (is_superuser carol) \<and>
   api example_env store (UpdateProduct (Some ''carol'') 1 [(''quantity'', IntV 6)])
     = (Inl (HTTPException 403 ''Not enough permissions''), store) \<and>
   api example_env store (DeleteProduct (Some ''carol'') 1)
     = (Inl (HTTPException 403 ''Not enough permissions''), store) \<and>
   api example_env store (UpdateProductStock (Some ''carol'') 1 (- 4))
     = (Inr (ProductR (widget\<lparr>quantity := 6\<rparr>)),
        store\<lparr>products := [widget\<lparr>quantity := 6\<rparr>, gadget, gizmo]\<rparr>) \<and>
   quantity widget = 10"
proof -
  have d: "api example_env store (DeleteProduct (Some ''carol'') 1)
     = (Inl (HTTPException 403 ''Not enough permissions''), store)"
    using carol_not_owner
    by (simp add: gate_carol depends_def respond_def delete_product_def get_widget)
  have s: "update_stock store 1 (- 4) =
     (Some (widget\<lparr>quantity := 6\<rparr>),
      store\<lparr>products := [widget\<lparr>quantity := 6\<rparr>, gadget, gizmo]\<rparr>)"
    by (simp add: update_stock_def get_widget Let_def)
       (simp add: store_row_def Product_def store_def widget_def gadget_def gizmo_def)
  have u: "api example_env store (UpdateProductStock (Some ''carol'') 1 (- 4))
     = (Inr (ProductR (widget\<lparr>quantity := 6\<rparr>)),
        store\<lparr>products := [widget\<lparr>quantity := 6\<rparr>, gadget, gizmo]\<rparr>)"
    by (simp add: gate_carol depends_def respond_def update_product_stock_def s)
  have q: "quantity widget = 10" by (simp add: widget_def)
  show ?thesis using gate_carol get_widget carol_not_owner carol_update_refused d u q by simp
qed

end
